theory Spec2Isabelle
  imports Main "HOL-Library.Sublist"
begin

section \<open>Data model\<close>

text \<open>
  The persisted schema of the complaint tracker (the initial migration and the later
  \<open>user_roles\<close> migration) and the page handlers that talk to it. A UUID is the text the
  TypeScript side sees (\<open>id: string\<close>), a timestamp is a natural number, and strings are
  sequences of code points below 256. What the database draws itself (\<open>now()\<close>,
  \<open>gen_random_uuid()\<close>) and what the browser draws (\<open>Date.now()\<close>) are parameters of
  the operations.
\<close>

type_synonym uuid = string
type_synonym timestamptz = nat

datatype app_role = role_student | role_admin

datatype complaint_category =
  cat_mentor | cat_admin | cat_academic_counsellor | cat_working_hub | cat_peer | cat_other

datatype complaint_status = st_open | st_in_progress | st_resolved

text \<open>
  Outcomes that are not a success. The first four are the error kinds of the
  specification; they stand for what the code shows: \<open>ValidationError\<close> for the toasts
  "Note required", "Invalid file type", "File too large", "Category required" and a failed
  zod schema; \<open>InvalidTransition\<close> for the toast "Cannot update"; \<open>NotFound\<close> for a
  \<open>.single()\<close> query that did not return exactly one row (the page then renders
  "Complaint not found"); \<open>Unauthorized\<close> for PostgreSQL's "new row violates row-level
  security policy". The others are constraint errors of the store and the failure of
  \<open>user!.id\<close> without a session.
\<close>

datatype error =
  ValidationError | InvalidTransition | NotFound | Unauthorized
  | CheckViolation | UniqueViolation | ForeignKeyViolation
  | PayloadTooLarge | InvalidMimeType | Duplicate | NoSession

record profile =
  p_id :: uuid
  p_role :: app_role
  p_full_name :: string
  p_email :: string
  p_is_active :: bool
  p_created_at :: timestamptz
  p_updated_at :: timestamptz

record complaint =
  c_id :: uuid
  c_student_id :: uuid
  c_title :: string
  c_category :: complaint_category
  c_description :: string
  c_attachment_id :: "uuid option"
  c_status :: complaint_status
  c_admin_note :: "string option"
  c_created_at :: timestamptz
  c_updated_at :: timestamptz

record attachment =
  a_id :: uuid
  a_owner_user_id :: uuid
  a_complaint_id :: "uuid option"
  a_original_filename :: string
  a_stored_path :: string
  a_mime_type :: string
  a_byte_size :: nat
  a_created_at :: timestamptz

record complaint_status_history =
  h_id :: uuid
  h_complaint_id :: uuid
  h_changed_by_user_id :: uuid
  h_from_status :: "complaint_status option"
  h_to_status :: complaint_status
  h_note_snapshot :: "string option"
  h_changed_at :: timestamptz

text \<open>A browser \<open>File\<close>: name, MIME type and size in bytes.\<close>

record js_file =
  f_name :: string
  f_type :: string
  f_size :: nat

text \<open>A row of \<open>storage.objects\<close>: the bucket, the object's path and the stored file.\<close>

record storage_object =
  o_bucket_id :: string
  o_name :: string
  o_file :: js_file

record db =
  profiles :: "profile list"
  user_roles :: "(uuid \<times> app_role) list"
  complaints :: "complaint list"
  attachments :: "attachment list"
  history :: "complaint_status_history list"
  objects :: "storage_object list"

section \<open>Strings as JavaScript and PostgreSQL treat them\<close>

text \<open>\<open>String.prototype.trim\<close>: white space and line terminators below code point 256.\<close>

definition isWhiteSpace :: "char \<Rightarrow> bool" where
  "isWhiteSpace c = ((of_char c :: nat) \<in> set [9, 10, 11, 12, 13, 32, 160])"

definition trim :: "string \<Rightarrow> string" where
  "trim s = rev (dropWhile isWhiteSpace (rev (dropWhile isWhiteSpace s)))"

text \<open>
  \<open>String.prototype.toLowerCase\<close> below code point 256: the letters A to Z (65 to 90) and
  the Latin-1 capitals 192 to 214 and 216 to 222 move up by 32; every other code point,
  the multiplication sign 215 among them, stays.
\<close>

definition toLowerChar :: "char \<Rightarrow> char" where
  "toLowerChar c =
     (let n = (of_char c :: nat)
      in if (65 \<le> n \<and> n \<le> 90) \<or> (192 \<le> n \<and> n \<le> 214) \<or> (216 \<le> n \<and> n \<le> 222)
         then char_of (n + 32) else c)"

definition toLowerCase :: "string \<Rightarrow> string" where
  "toLowerCase s = map toLowerChar s"

text \<open>\<open>s.includes(t)\<close>: \<open>t\<close> occurs in \<open>s\<close> as a contiguous run.\<close>

definition str_includes :: "string \<Rightarrow> string \<Rightarrow> bool" where
  "str_includes s t = sublist t s"

text \<open>\<open>s.split(sep)\<close> for a one-character separator; the result is never empty.\<close>

fun split_on :: "char \<Rightarrow> string \<Rightarrow> string list" where
  "split_on sep [] = [[]]"
| "split_on sep (x # xs) =
     (if x = sep then [] # split_on sep xs
      else (case split_on sep xs of
              [] \<Rightarrow> [[x]]
            | w # ws \<Rightarrow> (x # w) # ws))"

section \<open>Roles and row-level security\<close>

text \<open>
  \<open>auth.uid()\<close> is \<open>None\<close> for a request without a session; a comparison with NULL is
  not true, so no policy holds of it. After the \<open>user_roles\<close> migration \<open>is_admin\<close>
  reads \<open>user_roles\<close> through \<open>has_role\<close>.
\<close>

definition has_role :: "db \<Rightarrow> uuid option \<Rightarrow> app_role \<Rightarrow> bool" where
  "has_role d user_id r =
     (case user_id of None \<Rightarrow> False | Some i \<Rightarrow> (i, r) \<in> set (user_roles d))"

definition is_admin :: "db \<Rightarrow> uuid option \<Rightarrow> bool" where
  "is_admin d user_id = has_role d user_id role_admin"

text \<open>Policies "Users can view their own profile" and "Admins can view all profiles".\<close>

definition profiles_select_policy :: "db \<Rightarrow> uuid option \<Rightarrow> profile \<Rightarrow> bool" where
  "profiles_select_policy d uid p = (uid = Some (p_id p) \<or> has_role d uid role_admin)"

text \<open>
  Policies "Students can view their own complaints" and "Admins can view all complaints";
  "Students can create complaints"; "Admins can update complaints" (its \<open>USING\<close> is also
  its check of the new row, since it has no \<open>WITH CHECK\<close>).
\<close>

definition complaints_select_policy :: "db \<Rightarrow> uuid option \<Rightarrow> complaint \<Rightarrow> bool" where
  "complaints_select_policy d uid c =
     (uid = Some (c_student_id c) \<or> has_role d uid role_admin)"

definition complaints_insert_policy :: "db \<Rightarrow> uuid option \<Rightarrow> complaint \<Rightarrow> bool" where
  "complaints_insert_policy d uid c = (uid = Some (c_student_id c))"

definition complaints_update_policy :: "db \<Rightarrow> uuid option \<Rightarrow> complaint \<Rightarrow> bool" where
  "complaints_update_policy d uid c = has_role d uid role_admin"

text \<open>
  Policies "Users can view attachments of their complaints" and "Users can insert
  attachments for their complaints".
\<close>

definition attachments_select_policy :: "db \<Rightarrow> uuid option \<Rightarrow> attachment \<Rightarrow> bool" where
  "attachments_select_policy d uid a = (uid = Some (a_owner_user_id a) \<or> is_admin d uid)"

definition attachments_insert_policy :: "db \<Rightarrow> uuid option \<Rightarrow> attachment \<Rightarrow> bool" where
  "attachments_insert_policy d uid a = (uid = Some (a_owner_user_id a))"

text \<open>
  Policy "Users can view history of their complaints". Its subquery on \<open>complaints\<close> runs
  as the caller, so it ranges over the complaints the caller may see.
\<close>

definition history_select_policy ::
  "db \<Rightarrow> uuid option \<Rightarrow> complaint_status_history \<Rightarrow> bool" where
  "history_select_policy d uid h =
     (list_ex (\<lambda>c. c_id c = h_complaint_id h \<and> Some (c_student_id c) = uid)
        (filter (complaints_select_policy d uid) (complaints d))
      \<or> is_admin d uid)"

text \<open>Policy "System can insert history records": \<open>WITH CHECK (true)\<close>, for every role.\<close>

definition history_insert_policy ::
  "db \<Rightarrow> uuid option \<Rightarrow> complaint_status_history \<Rightarrow> bool" where
  "history_insert_policy d uid h = True"

section \<open>The status history table and its trigger\<close>

text \<open>
  The constraints of \<open>complaint_status_history\<close>: the check on \<open>note_snapshot\<close>, the
  primary key and the two foreign keys.
\<close>

definition history_constraints :: "db \<Rightarrow> complaint_status_history \<Rightarrow> error option" where
  "history_constraints d h =
     (if (case h_note_snapshot h of None \<Rightarrow> False | Some n \<Rightarrow> length n > 5000)
        then Some CheckViolation
      else if h_id h \<in> set (map h_id (history d)) then Some UniqueViolation
      else if h_complaint_id h \<notin> set (map c_id (complaints d))
              \<or> h_changed_by_user_id h \<notin> set (map p_id (profiles d))
        then Some ForeignKeyViolation
      else None)"

text \<open>An insert that row-level security does not see (the trigger is \<open>SECURITY DEFINER\<close>).\<close>

definition insert_history_definer :: "db \<Rightarrow> complaint_status_history \<Rightarrow> error + db" where
  "insert_history_definer d h =
     (case history_constraints d h of
        Some e \<Rightarrow> Inl e
      | None \<Rightarrow> Inr (d\<lparr>history := history d @ [h]\<rparr>))"

text \<open>
  A client's \<open>supabase.from("complaint_status_history").insert(row)\<close>: the insert policy,
  then the constraints.
\<close>

definition insert_history :: "db \<Rightarrow> uuid option \<Rightarrow> complaint_status_history \<Rightarrow> error + db" where
  "insert_history d uid h =
     (if \<not> history_insert_policy d uid h then Inl Unauthorized
      else insert_history_definer d h)"

text \<open>
  \<open>log_complaint_status_change\<close>, fired after an insert (\<open>OLD = None\<close>, that is
  \<open>TG_OP = 'INSERT'\<close>) or an update (\<open>OLD = Some old\<close>) of a complaint, in the
  statement's transaction: an error aborts the statement. \<open>hid\<close> is the new row's
  \<open>gen_random_uuid()\<close>.
\<close>

definition log_complaint_status_change ::
  "db \<Rightarrow> uuid option \<Rightarrow> timestamptz \<Rightarrow> uuid \<Rightarrow> complaint option \<Rightarrow> complaint \<Rightarrow> error + db" where
  "log_complaint_status_change d uid now hid OLD NEW =
     (if OLD = None \<or> map_option c_status OLD \<noteq> Some (c_status NEW) then
        insert_history_definer d
          \<lparr>h_id = hid,
           h_complaint_id = c_id NEW,
           h_changed_by_user_id = (case uid of Some u \<Rightarrow> u | None \<Rightarrow> c_student_id NEW),
           h_from_status = (case OLD of None \<Rightarrow> None | Some old \<Rightarrow> Some (c_status old)),
           h_to_status = c_status NEW,
           h_note_snapshot = c_admin_note NEW,
           h_changed_at = now\<rparr>
      else Inr d)"

section \<open>The complaints table\<close>

text \<open>The checks on \<open>title\<close>, \<open>description\<close> and \<open>admin_note\<close>.\<close>

definition complaints_check :: "complaint \<Rightarrow> bool" where
  "complaints_check c =
     (length (c_title c) > 0 \<and> length (c_title c) \<le> 120
      \<and> length (c_description c) > 0 \<and> length (c_description c) \<le> 5000
      \<and> (case c_admin_note c of None \<Rightarrow> True | Some n \<Rightarrow> length n \<le> 5000))"

text \<open>
  \<open>INSERT INTO complaints\<close> of the row \<open>NEW\<close> (defaults filled in) by the caller \<open>uid\<close>:
  the insert policy, the checks, the primary key, the foreign keys, then the trigger.
\<close>

definition insert_complaints ::
  "db \<Rightarrow> uuid option \<Rightarrow> timestamptz \<Rightarrow> uuid \<Rightarrow> complaint \<Rightarrow> error + db" where
  "insert_complaints d uid now hid NEW =
     (if \<not> complaints_insert_policy d uid NEW then Inl Unauthorized
      else if \<not> complaints_check NEW then Inl CheckViolation
      else if c_id NEW \<in> set (map c_id (complaints d)) then Inl UniqueViolation
      else if c_student_id NEW \<notin> set (map p_id (profiles d))
              \<or> (case c_attachment_id NEW of
                    None \<Rightarrow> False
                  | Some a \<Rightarrow> a \<notin> set (map a_id (attachments d)))
        then Inl ForeignKeyViolation
      else log_complaint_status_change (d\<lparr>complaints := complaints d @ [NEW]\<rparr>)
             uid now hid None NEW)"

text \<open>
  \<open>supabase.from("complaints").update({status, admin_note}).eq("id", id)\<close>, with \<open>cid\<close> for \<open>id\<close>.
  The statement touches the row with that id if the caller may select and update it; no
  such row is no error. The \<open>BEFORE UPDATE\<close> trigger \<open>update_updated_at_column\<close> sets
  \<open>updated_at\<close>, then the checks run on the new row, and the \<open>AFTER UPDATE\<close> trigger
  logs. \<open>id\<close> is the primary key, so the row found first is the only one.
\<close>

definition update_complaints ::
  "db \<Rightarrow> uuid option \<Rightarrow> timestamptz \<Rightarrow> uuid \<Rightarrow> uuid \<Rightarrow> complaint_status \<Rightarrow> string option
     \<Rightarrow> error + db" where
  "update_complaints d uid now hid cid status admin_note =
     (case find (\<lambda>c. c_id c = cid \<and> complaints_select_policy d uid c
                      \<and> complaints_update_policy d uid c) (complaints d) of
        None \<Rightarrow> Inr d
      | Some OLD \<Rightarrow>
          (let NEW = OLD\<lparr>c_status := status, c_admin_note := admin_note, c_updated_at := now\<rparr>
           in if \<not> complaints_update_policy d uid NEW then Inl Unauthorized
              else if \<not> complaints_check NEW then Inl CheckViolation
              else log_complaint_status_change
                     (d\<lparr>complaints := map (\<lambda>c. if c_id c = cid then NEW else c) (complaints d)\<rparr>)
                     uid now hid (Some OLD) NEW))"

section \<open>The admin's complaint page\<close>

text \<open>
  \<open>handleSave\<close> of \<open>AdminComplaintDetail\<close>. \<open>complaint\<close> is the page's copy of the
  complaint (\<open>None\<close> while it has not loaded), \<open>cid\<close> the route parameter \<open>id\<close>, \<open>status\<close> and
  \<open>adminNote\<close> the form's fields. The result is the error shown (\<open>None\<close> for
  "Updated successfully") and the store afterwards.
\<close>

definition handleSave ::
  "db \<Rightarrow> uuid option \<Rightarrow> timestamptz \<Rightarrow> uuid \<Rightarrow> complaint option \<Rightarrow> uuid \<Rightarrow> complaint_status
     \<Rightarrow> string \<Rightarrow> error option \<times> db" where
  "handleSave d uid now hid complaint cid status adminNote =
     (if status = st_resolved \<and> trim adminNote = [] then (Some ValidationError, d)
      else if map_option c_status complaint = Some st_resolved then (Some InvalidTransition, d)
      else (case update_complaints d uid now hid cid status
                   (if trim adminNote = [] then None else Some (trim adminNote)) of
              Inl e \<Rightarrow> (Some e, d)
            | Inr d' \<Rightarrow> (None, d')))"

section \<open>Reading complaints and their history\<close>

text \<open>PostgREST's \<open>.single()\<close>: exactly one row, or an error.\<close>

definition single :: "'a list \<Rightarrow> error + 'a" where
  "single rows = (case rows of [r] \<Rightarrow> Inr r | _ \<Rightarrow> Inl NotFound)"

text \<open>
  \<open>fetchComplaint\<close> of the detail pages: \<open>select * from complaints where id = cid\<close> as
  the caller, \<open>.single()\<close>. On an error the page keeps \<open>complaint = null\<close> and renders
  "Complaint not found". (The admin's page embeds the student in the row as well.)
\<close>

definition fetchComplaint :: "db \<Rightarrow> uuid option \<Rightarrow> uuid \<Rightarrow> error + complaint" where
  "fetchComplaint d uid cid =
     single (filter (\<lambda>c. c_id c = cid) (filter (complaints_select_policy d uid) (complaints d)))"

text \<open>
  \<open>fetchHistory\<close> of the detail pages: the rows of the complaint the caller may see,
  ordered by \<open>changed_at\<close> ascending. A caller who may see none gets the empty list, with
  no error.
\<close>

definition fetchHistory :: "db \<Rightarrow> uuid option \<Rightarrow> uuid \<Rightarrow> complaint_status_history list" where
  "fetchHistory d uid cid =
     sort_key h_changed_at
       (filter (\<lambda>h. h_complaint_id h = cid) (filter (history_select_policy d uid) (history d)))"

text \<open>
  The embedded resource \<open>student:student_id (id, full_name, email)\<close>: the profile the
  foreign key points to, if the caller may see it.
\<close>

definition student_of :: "db \<Rightarrow> uuid option \<Rightarrow> complaint \<Rightarrow> profile option" where
  "student_of d uid c =
     find (\<lambda>p. p_id p = c_student_id c) (filter (profiles_select_policy d uid) (profiles d))"

text \<open>
  \<open>fetchComplaints\<close> of the admin dashboard: every complaint the caller may see, with its
  student, newest first (rows of equal \<open>created_at\<close> in one fixed order). The query
  takes no search term.
\<close>

definition fetchComplaints :: "db \<Rightarrow> uuid option \<Rightarrow> (complaint \<times> profile option) list" where
  "fetchComplaints d uid =
     map (\<lambda>c. (c, student_of d uid c))
       (rev (sort_key c_created_at (filter (complaints_select_policy d uid) (complaints d))))"

text \<open>
  \<open>filterComplaints\<close> of the admin dashboard, over the rows \<open>fetched\<close> that the page
  holds in its state \<open>complaints\<close>. A filter
  \<open>None\<close> is the choice "all"; \<open>c.student?.email?.toLowerCase().includes(term)\<close> is not
  true of a complaint without student.
\<close>

definition filterComplaints ::
  "(complaint \<times> profile option) list \<Rightarrow> string \<Rightarrow> complaint_status option
     \<Rightarrow> complaint_category option \<Rightarrow> (complaint \<times> profile option) list" where
  "filterComplaints fetched searchTerm statusFilter categoryFilter =
     (let filtered = fetched;
          filtered =
            (if searchTerm \<noteq> [] then
               (let term = toLowerCase searchTerm
                in filter (\<lambda>(c, student).
                     str_includes (toLowerCase (c_title c)) term
                     \<or> str_includes (toLowerCase (c_description c)) term
                     \<or> (case student of None \<Rightarrow> False
                         | Some p \<Rightarrow> str_includes (toLowerCase (p_email p)) term)
                     \<or> (case student of None \<Rightarrow> False
                         | Some p \<Rightarrow> str_includes (toLowerCase (p_full_name p)) term))
                   filtered)
             else filtered);
          filtered =
            (case statusFilter of None \<Rightarrow> filtered
             | Some s \<Rightarrow> filter (\<lambda>(c, student). c_status c = s) filtered);
          filtered =
            (case categoryFilter of None \<Rightarrow> filtered
             | Some k \<Rightarrow> filter (\<lambda>(c, student). c_category c = k) filtered)
      in filtered)"

text \<open>
  The search as the specification words it: the term occurs, case-insensitively, in the
  title, the description, or the name or the email of the student the complaint links to.
\<close>

definition contains_ci :: "string \<Rightarrow> string \<Rightarrow> bool" where
  "contains_ci s t = sublist (toLowerCase t) (toLowerCase s)"

definition search_matches :: "db \<Rightarrow> string \<Rightarrow> complaint \<Rightarrow> bool" where
  "search_matches d t c =
     (contains_ci (c_title c) t \<or> contains_ci (c_description c) t
      \<or> list_ex (\<lambda>p. p_id p = c_student_id c
                      \<and> (contains_ci (p_full_name p) t \<or> contains_ci (p_email p) t))
          (profiles d))"

section \<open>Attachments and the storage bucket\<close>

text \<open>The bucket \<open>complaint-attachments\<close>: its size limit and its MIME types.\<close>

definition file_size_limit :: nat where
  "file_size_limit = 10485760"

definition allowed_mime_types :: "string list" where
  "allowed_mime_types = [''application/pdf'', ''image/jpeg'', ''image/png'', ''image/jpg'']"

text \<open>\<open>storage.foldername\<close>: the segments of a path without the last one.\<close>

definition foldername :: "string \<Rightarrow> string list" where
  "foldername name = butlast (split_on (CHR ''/'') name)"

text \<open>
  Policy "Users can upload their own attachments", and the two select policies "Users can
  view their own attachments" and "Admins can view all attachments" (either suffices).
  \<open>(storage.foldername(name))[1]\<close> of a path without folder is NULL.
\<close>

definition objects_insert_policy :: "db \<Rightarrow> uuid option \<Rightarrow> storage_object \<Rightarrow> bool" where
  "objects_insert_policy d uid ob =
     (o_bucket_id ob = ''complaint-attachments''
      \<and> (case foldername (o_name ob) of [] \<Rightarrow> False | seg # _ \<Rightarrow> uid = Some seg))"

definition objects_select_policy :: "db \<Rightarrow> uuid option \<Rightarrow> storage_object \<Rightarrow> bool" where
  "objects_select_policy d uid ob =
     ((o_bucket_id ob = ''complaint-attachments''
       \<and> ((case foldername (o_name ob) of [] \<Rightarrow> False | seg # _ \<Rightarrow> uid = Some seg)
          \<or> is_admin d uid))
      \<or> (o_bucket_id ob = ''complaint-attachments'' \<and> is_admin d uid))"

text \<open>
  \<open>supabase.storage.from(bucket).upload(name, file)\<close>: the bucket's limits, the insert
  policy, and no overwriting of an object.
\<close>

definition storage_upload :: "db \<Rightarrow> uuid option \<Rightarrow> string \<Rightarrow> string \<Rightarrow> js_file \<Rightarrow> error + db" where
  "storage_upload d uid bucket name f =
     (let ob = \<lparr>o_bucket_id = bucket, o_name = name, o_file = f\<rparr>
      in if bucket \<noteq> ''complaint-attachments'' then Inl NotFound
         else if f_size f > file_size_limit then Inl PayloadTooLarge
         else if f_type f \<notin> set allowed_mime_types then Inl InvalidMimeType
         else if \<not> objects_insert_policy d uid ob then Inl Unauthorized
         else if list_ex (\<lambda>x. o_bucket_id x = bucket \<and> o_name x = name) (objects d)
           then Inl Duplicate
         else Inr (d\<lparr>objects := objects d @ [ob]\<rparr>))"

text \<open>\<open>supabase.storage.from(bucket).download(path)\<close>: \<open>None\<close> is "no data".\<close>

definition storage_download :: "db \<Rightarrow> uuid option \<Rightarrow> string \<Rightarrow> string \<Rightarrow> js_file option" where
  "storage_download d uid bucket name =
     map_option o_file
       (find (\<lambda>x. o_bucket_id x = bucket \<and> o_name x = name)
          (filter (objects_select_policy d uid) (objects d)))"

text \<open>The checks of the \<open>attachments\<close> table.\<close>

definition attachments_check :: "attachment \<Rightarrow> bool" where
  "attachments_check a =
     (length (a_original_filename a) \<le> 255 \<and> length (a_stored_path a) \<le> 1024
      \<and> length (a_mime_type a) \<le> 100 \<and> a_byte_size a > 0 \<and> a_byte_size a \<le> 10485760)"

text \<open>
  \<open>supabase.from("attachments").insert(row).select().single()\<close>: the insert policy, the
  checks, the keys; the returned row must pass the select policy too.
\<close>

definition insert_attachments :: "db \<Rightarrow> uuid option \<Rightarrow> attachment \<Rightarrow> error + db" where
  "insert_attachments d uid NEW =
     (if \<not> attachments_insert_policy d uid NEW then Inl Unauthorized
      else if \<not> attachments_select_policy d uid NEW then Inl Unauthorized
      else if \<not> attachments_check NEW then Inl CheckViolation
      else if a_id NEW \<in> set (map a_id (attachments d)) then Inl UniqueViolation
      else if a_owner_user_id NEW \<notin> set (map p_id (profiles d))
              \<or> (case a_complaint_id NEW of
                    None \<Rightarrow> False
                  | Some c \<Rightarrow> c \<notin> set (map c_id (complaints d)))
        then Inl ForeignKeyViolation
      else Inr (d\<lparr>attachments := attachments d @ [NEW]\<rparr>))"

text \<open>
  \<open>downloadAttachment\<close> of the detail pages, from the page's copy of the complaint:
  nothing without a complaint or without an attachment id; else the attachment row the
  caller may see, and the object at its path.
\<close>

definition downloadAttachment :: "db \<Rightarrow> uuid option \<Rightarrow> complaint option \<Rightarrow> js_file option" where
  "downloadAttachment d uid complaint =
     (case complaint of
        None \<Rightarrow> None
      | Some c \<Rightarrow>
          (case c_attachment_id c of
             None \<Rightarrow> None
           | Some aid \<Rightarrow>
               (case single (filter (\<lambda>a. a_id a = aid)
                               (filter (attachments_select_policy d uid) (attachments d))) of
                  Inl e \<Rightarrow> None
                | Inr attachmentData \<Rightarrow>
                    storage_download d uid ''complaint-attachments''
                      (a_stored_path attachmentData))))"

section \<open>Submitting a complaint\<close>

definition validTypes :: "string list" where
  "validTypes = [''application/pdf'', ''image/jpeg'', ''image/png'', ''image/jpg'']"

definition maxSize :: nat where
  "maxSize = 10 * 1024 * 1024"

text \<open>
  \<open>handleFileChange\<close> of \<open>NewComplaint\<close>: \<open>file\<close> is the form's file so far,
  \<open>selectedFile\<close> the one just picked (\<open>e.target.files?.[0]\<close>). The result is the error
  shown and the form's file afterwards.
\<close>

definition handleFileChange ::
  "js_file option \<Rightarrow> js_file option \<Rightarrow> error option \<times> js_file option" where
  "handleFileChange file selectedFile =
     (case selectedFile of
        None \<Rightarrow> (None, file)
      | Some sf \<Rightarrow>
          if f_type sf \<notin> set validTypes then (Some ValidationError, file)
          else if f_size sf > maxSize then (Some ValidationError, file)
          else (None, Some sf))"

text \<open>The zod schemas: trim, then at least 1 and at most 120 (5000) characters.\<close>

definition titleSchema :: "string \<Rightarrow> bool" where
  "titleSchema v = (1 \<le> length (trim v) \<and> length (trim v) \<le> 120)"

definition descriptionSchema :: "string \<Rightarrow> bool" where
  "descriptionSchema v = (1 \<le> length (trim v) \<and> length (trim v) \<le> 5000)"

text \<open>
  The first half of \<open>handleSubmit\<close>'s \<open>try\<close> block: upload the file under
  \<open>user.id/Date.now().ext\<close> and record it. \<open>date_now\<close> is the text of \<open>Date.now()\<close>,
  \<open>aid\<close> the attachment's \<open>gen_random_uuid()\<close>. A blob whose record fails stays in the
  bucket.
\<close>

definition upload_file ::
  "db \<Rightarrow> uuid \<Rightarrow> timestamptz \<Rightarrow> string \<Rightarrow> uuid \<Rightarrow> js_file \<Rightarrow> (error \<times> db) + (db \<times> uuid option)" where
  "upload_file d u now date_now aid f =
     (let fileExt = last (split_on (CHR ''.'') (f_name f));
          fileName = u @ ''/'' @ date_now @ ''.'' @ fileExt
      in case storage_upload d (Some u) ''complaint-attachments'' fileName f of
           Inl uploadError \<Rightarrow> Inl (uploadError, d)
         | Inr d1 \<Rightarrow>
             (case insert_attachments d1 (Some u)
                     \<lparr>a_id = aid, a_owner_user_id = u, a_complaint_id = None,
                      a_original_filename = f_name f, a_stored_path = fileName,
                      a_mime_type = f_type f, a_byte_size = f_size f,
                      a_created_at = now\<rparr> of
                Inl attachmentError \<Rightarrow> Inl (attachmentError, d1)
              | Inr d2 \<Rightarrow> Inr (d2, Some aid)))"

text \<open>
  \<open>handleSubmit\<close> of \<open>NewComplaint\<close>. \<open>user\<close> is the session's user, who is also the
  store's \<open>auth.uid()\<close>; \<open>category\<close> is \<open>None\<close> while none is selected. \<open>cid\<close> and
  \<open>hid\<close> are the \<open>gen_random_uuid()\<close> of the complaint and of its history row. The
  row sent has five columns; the table's defaults give \<open>status = 'open'\<close>, no
  \<open>admin_note\<close> and both timestamps \<open>now()\<close>.
\<close>

definition handleSubmit ::
  "db \<Rightarrow> uuid option \<Rightarrow> timestamptz \<Rightarrow> string \<Rightarrow> uuid \<Rightarrow> uuid \<Rightarrow> uuid \<Rightarrow> string
     \<Rightarrow> complaint_category option \<Rightarrow> string \<Rightarrow> js_file option \<Rightarrow> error option \<times> db" where
  "handleSubmit d user now date_now aid cid hid title category description file =
     (case category of
        None \<Rightarrow> (Some ValidationError, d)
      | Some cat \<Rightarrow>
          if \<not> titleSchema title \<or> \<not> descriptionSchema description
            then (Some ValidationError, d)
          else
            (case (case (file, user) of
                     (Some f, Some u) \<Rightarrow> upload_file d u now date_now aid f
                   | _ \<Rightarrow> Inr (d, None)) of
               Inl (e, d1) \<Rightarrow> (Some e, d1)
             | Inr (d1, attachmentId) \<Rightarrow>
                 (case user of
                    None \<Rightarrow> (Some NoSession, d1)
                  | Some u \<Rightarrow>
                      (case insert_complaints d1 user now hid
                              \<lparr>c_id = cid, c_student_id = u, c_title = trim title,
                               c_category = cat, c_description = trim description,
                               c_attachment_id = attachmentId, c_status = st_open,
                               c_admin_note = None, c_created_at = now,
                               c_updated_at = now\<rparr> of
                         Inl complaintError \<Rightarrow> (Some complaintError, d1)
                       | Inr d2 \<Rightarrow> (None, d2)))))"

section \<open>Updating a profile\<close>

text \<open>
  The columns an \<open>update\<close> of \<open>profiles\<close> may set; \<open>None\<close> leaves a column as it is.
\<close>

record profile_patch =
  set_id :: "uuid option"
  set_role :: "app_role option"
  set_full_name :: "string option"
  set_email :: "string option"
  set_is_active :: "bool option"
  set_created_at :: "timestamptz option"
  set_updated_at :: "timestamptz option"

definition apply_patch :: "profile_patch \<Rightarrow> profile \<Rightarrow> profile" where
  "apply_patch u p =
     \<lparr>p_id = (case set_id u of None \<Rightarrow> p_id p | Some v \<Rightarrow> v),
      p_role = (case set_role u of None \<Rightarrow> p_role p | Some v \<Rightarrow> v),
      p_full_name = (case set_full_name u of None \<Rightarrow> p_full_name p | Some v \<Rightarrow> v),
      p_email = (case set_email u of None \<Rightarrow> p_email p | Some v \<Rightarrow> v),
      p_is_active = (case set_is_active u of None \<Rightarrow> p_is_active p | Some v \<Rightarrow> v),
      p_created_at = (case set_created_at u of None \<Rightarrow> p_created_at p | Some v \<Rightarrow> v),
      p_updated_at = (case set_updated_at u of None \<Rightarrow> p_updated_at p | Some v \<Rightarrow> v)\<rparr>"

text \<open>
  Policy "Users can update their own profile". \<open>USING\<close> is asked of the old row,
  \<open>WITH CHECK\<close> of the new one; its subquery reads the caller's stored role (the table
  as it was before the statement, and as the caller may see it), and a subquery without
  row is NULL, which equals nothing.
\<close>

definition profiles_update_using :: "db \<Rightarrow> uuid option \<Rightarrow> profile \<Rightarrow> bool" where
  "profiles_update_using d uid p = (uid = Some (p_id p))"

definition profiles_update_check :: "db \<Rightarrow> uuid option \<Rightarrow> profile \<Rightarrow> bool" where
  "profiles_update_check d uid NEW =
     (uid = Some (p_id NEW)
      \<and> Some (p_role NEW) =
          map_option p_role
            (find (\<lambda>p. Some (p_id p) = uid)
               (filter (profiles_select_policy d uid) (profiles d))))"

definition profiles_check :: "profile \<Rightarrow> bool" where
  "profiles_check p = (length (p_full_name p) \<le> 100 \<and> length (p_email p) \<le> 254)"

text \<open>
  \<open>supabase.from("profiles").update(patch)\<close> with a filter \<open>flt\<close>, as the caller
  \<open>uid\<close>: the rows the filter selects among those the caller may see and update; the
  \<open>BEFORE UPDATE\<close> trigger sets \<open>updated_at\<close>; one new row that fails the policy's
  check or a constraint aborts the statement.
\<close>

definition update_profiles ::
  "db \<Rightarrow> uuid option \<Rightarrow> timestamptz \<Rightarrow> (profile \<Rightarrow> bool) \<Rightarrow> profile_patch \<Rightarrow> error + db" where
  "update_profiles d uid now flt patch =
     (let target = (\<lambda>p. flt p \<and> profiles_select_policy d uid p \<and> profiles_update_using d uid p);
          new = (\<lambda>p. (apply_patch patch p)\<lparr>p_updated_at := now\<rparr>);
          rows = map (\<lambda>p. if target p then new p else p) (profiles d)
      in if list_ex (\<lambda>p. target p \<and> \<not> profiles_update_check d uid (new p)) (profiles d)
           then Inl Unauthorized
         else if list_ex (\<lambda>p. target p \<and> \<not> profiles_check (new p)) (profiles d)
           then Inl CheckViolation
         else if \<not> distinct (map p_id rows) \<or> \<not> distinct (map p_email rows)
           then Inl UniqueViolation
         else Inr (d\<lparr>profiles := rows\<rparr>))"

section \<open>Invariants of the store\<close>

text \<open>
  Primary keys are unique, and every history row belongs to a complaint (the foreign key
  \<open>complaint_id\<close>).
\<close>

definition keys_ok :: "db \<Rightarrow> bool" where
  "keys_ok d =
     (distinct (map p_id (profiles d)) \<and> distinct (map c_id (complaints d))
      \<and> distinct (map h_id (history d))
      \<and> list_all (\<lambda>h. h_complaint_id h \<in> set (map c_id (complaints d))) (history d))"

section \<open>A small store\<close>

text \<open>
  Two students, one admin; an open complaint and a resolved one with an attachment, with
  the history rows the trigger wrote for them.
\<close>

definition alice :: profile where
  "alice = \<lparr>p_id = ''s1'', p_role = role_student, p_full_name = ''Alice Roy'',
            p_email = ''alice@example.org'', p_is_active = True,
            p_created_at = 1, p_updated_at = 1\<rparr>"

definition bob :: profile where
  "bob = \<lparr>p_id = ''s2'', p_role = role_student, p_full_name = ''Bob Nair'',
          p_email = ''bob@example.org'', p_is_active = True,
          p_created_at = 2, p_updated_at = 2\<rparr>"

definition carol :: profile where
  "carol = \<lparr>p_id = ''a1'', p_role = role_admin, p_full_name = ''Carol Das'',
            p_email = ''carol@example.org'', p_is_active = True,
            p_created_at = 3, p_updated_at = 3\<rparr>"

definition wifi :: complaint where
  "wifi = \<lparr>c_id = ''c1'', c_student_id = ''s1'', c_title = ''WiFi down'',
           c_category = cat_working_hub, c_description = ''No network in hub B'',
           c_attachment_id = None, c_status = st_open, c_admin_note = None,
           c_created_at = 10, c_updated_at = 10\<rparr>"

definition refund :: complaint where
  "refund = \<lparr>c_id = ''c2'', c_student_id = ''s1'', c_title = ''Fee refund'',
             c_category = cat_admin, c_description = ''Paid twice'',
             c_attachment_id = Some ''t1'', c_status = st_resolved,
             c_admin_note = Some ''Refunded'', c_created_at = 20, c_updated_at = 30\<rparr>"

definition receipt :: js_file where
  "receipt = \<lparr>f_name = ''receipt.pdf'', f_type = ''application/pdf'', f_size = 2048\<rparr>"

definition store :: db where
  "store =
     \<lparr>profiles = [alice, bob, carol],
      user_roles = [(''s1'', role_student), (''s2'', role_student), (''a1'', role_admin)],
      complaints = [wifi, refund],
      attachments =
        [\<lparr>a_id = ''t1'', a_owner_user_id = ''s1'', a_complaint_id = None,
          a_original_filename = ''receipt.pdf'', a_stored_path = ''s1/19.pdf'',
          a_mime_type = ''application/pdf'', a_byte_size = 2048, a_created_at = 19\<rparr>],
      history =
        [\<lparr>h_id = ''h1'', h_complaint_id = ''c1'', h_changed_by_user_id = ''s1'',
          h_from_status = None, h_to_status = st_open, h_note_snapshot = None,
          h_changed_at = 10\<rparr>,
         \<lparr>h_id = ''h2'', h_complaint_id = ''c2'', h_changed_by_user_id = ''s1'',
          h_from_status = None, h_to_status = st_open, h_note_snapshot = None,
          h_changed_at = 20\<rparr>,
         \<lparr>h_id = ''h3'', h_complaint_id = ''c2'', h_changed_by_user_id = ''a1'',
          h_from_status = Some st_open, h_to_status = st_resolved,
          h_note_snapshot = Some ''Refunded'', h_changed_at = 30\<rparr>],
      objects =
        [\<lparr>o_bucket_id = ''complaint-attachments'', o_name = ''s1/19.pdf'',
          o_file = receipt\<rparr>]\<rparr>"

text \<open>
  A history row that no trigger wrote: it says the admin resolved the open complaint
  \<open>wifi\<close>.
\<close>

definition forged :: complaint_status_history where
  "forged = \<lparr>h_id = ''h9'', h_complaint_id = ''c1'', h_changed_by_user_id = ''a1'',
             h_from_status = Some st_open, h_to_status = st_resolved,
             h_note_snapshot = Some ''Closed'', h_changed_at = 99\<rparr>"

text \<open>
  The complaint \<open>refund\<close> as an admin's page loaded it at time 25, before it was
  resolved at time 30.
\<close>

definition refund_loaded :: complaint where
  "refund_loaded = refund\<lparr>c_status := st_open, c_admin_note := None, c_updated_at := 20\<rparr>"

text \<open>A file of type \<open>image/jpg\<close>.\<close>

definition photo :: js_file where
  "photo = \<lparr>f_name = ''desk.jpg'', f_type = ''image/jpg'', f_size = 4096\<rparr>"

section \<open>Resolving needs a note\<close>

lemma trim_blank: "(\<forall>c \<in> set s. isWhiteSpace c) \<Longrightarrow> trim s = []"
proof -
  assume "\<forall>c \<in> set s. isWhiteSpace c"
  then have blank: "dropWhile isWhiteSpace s = []" by simp
  show ?thesis unfolding trim_def blank by simp
qed

text \<open>
  C3. Saving with the new status \<open>resolved\<close> and a note that is empty or consists of white
  space only is rejected with \<open>ValidationError\<close>, and the store (complaints and ledger
  alike) is what it was.
\<close>

theorem resolve_requires_note:
  assumes "\<forall>c \<in> set adminNote. isWhiteSpace c"
  shows "handleSave d uid now hid complaint cid st_resolved adminNote = (Some ValidationError, d)"
  using trim_blank [OF assms] by (simp add: handleSave_def)

theorem resolve_requires_note_witness:
  "list_all isWhiteSpace ''  ''
   \<and> handleSave store (Some ''a1'') 40 ''h4'' (Some wifi) ''c1'' st_resolved ''  ''
       = (Some ValidationError, store)"
  using resolve_requires_note [of "''  ''" store "Some ''a1''" 40 "''h4''" "Some wifi" "''c1''"]
  by (simp add: isWhiteSpace_def)

section \<open>A resolved complaint is frozen\<close>

text \<open>
  What the guards of \<open>handleSave\<close> do when the page's copy of the complaint is resolved:
  every save fails and leaves the store as it was, whoever asks and whatever status and
  note are asked for. The note is examined first: asking for \<open>resolved\<close> with a blank
  note is answered \<open>ValidationError\<close>, every other request \<open>InvalidTransition\<close>.
\<close>

lemma handleSave_resolved_copy:
  assumes "c_status c = st_resolved"
  shows "handleSave d uid now hid (Some c) cid status adminNote =
           (Some (if status = st_resolved \<and> trim adminNote = [] then ValidationError
                  else InvalidTransition), d)"
  using assms by (simp add: handleSave_def)

lemma handleSave_resolved_blank_note:
  "handleSave store (Some ''a1'') 40 ''h4'' (Some refund) ''c2'' st_resolved '' ''
     = (Some ValidationError, store)"
  by (simp add: handleSave_resolved_copy refund_def trim_def isWhiteSpace_def)

text \<open>
  C1 (the code at the failing input). The guard reads the page's copy, and the store has
  no guard of its own: the update policy asks for the admin role and nothing else. The
  complaint \<open>refund\<close> is resolved in the store. An admin whose page loaded it while it
  was still open saves \<open>open\<close> with the note "reopen": the save succeeds, the stored
  complaint is open again with the new note, and the trigger logs the transition from
  \<open>resolved\<close> to \<open>open\<close>. The same update sent to the store directly, without the
  page, succeeds as well.
\<close>

theorem resolved_complaint_reopened:
  "refund \<in> set (complaints store) \<and> c_status refund = st_resolved
   \<and> has_role store (Some ''a1'') role_admin
   \<and> handleSave store (Some ''a1'') 40 ''h4'' (Some refund_loaded) ''c2'' st_open ''reopen''
       = (None,
          store\<lparr>complaints :=
                   [wifi, refund\<lparr>c_status := st_open, c_admin_note := Some ''reopen'',
                                 c_updated_at := 40\<rparr>],
                 history := history store @
                   [\<lparr>h_id = ''h4'', h_complaint_id = ''c2'', h_changed_by_user_id = ''a1'',
                     h_from_status = Some st_resolved, h_to_status = st_open,
                     h_note_snapshot = Some ''reopen'', h_changed_at = 40\<rparr>]\<rparr>)
   \<and> update_complaints store (Some ''a1'') 40 ''h4'' ''c2'' st_in_progress None
       = Inr (store\<lparr>complaints :=
                   [wifi, refund\<lparr>c_status := st_in_progress, c_admin_note := None,
                                 c_updated_at := 40\<rparr>],
                 history := history store @
                   [\<lparr>h_id = ''h4'', h_complaint_id = ''c2'', h_changed_by_user_id = ''a1'',
                     h_from_status = Some st_resolved, h_to_status = st_in_progress,
                     h_note_snapshot = None, h_changed_at = 40\<rparr>]\<rparr>)"
  by (simp add: handleSave_def update_complaints_def log_complaint_status_change_def
      insert_history_definer_def history_constraints_def complaints_check_def
      complaints_select_policy_def complaints_update_policy_def has_role_def
      trim_def isWhiteSpace_def refund_loaded_def
      store_def wifi_def refund_def alice_def bob_def carol_def)

section \<open>The ledger follows status changes\<close>

lemma find_by_key:
  "distinct (map key xs) \<Longrightarrow> x \<in> set xs \<Longrightarrow> find (\<lambda>y. key y = key x) xs = Some x"
  by (induction xs) (auto simp: rev_image_eqI)

lemma find_admin_row:
  assumes "has_role d uid role_admin" "distinct (map c_id (complaints d))" "old \<in> set (complaints d)"
  shows "find (\<lambda>c. c_id c = c_id old \<and> complaints_select_policy d uid c
                     \<and> complaints_update_policy d uid c) (complaints d) = Some old"
  using assms find_by_key [of c_id "complaints d" old]
  by (simp add: complaints_select_policy_def complaints_update_policy_def)

lemma log_appends:
  assumes "log_complaint_status_change d uid now hid OLD NEW = Inr d'"
      and "OLD = None \<or> map_option c_status OLD \<noteq> Some (c_status NEW)"
  shows "d' = d\<lparr>history := history d @
           [\<lparr>h_id = hid, h_complaint_id = c_id NEW,
             h_changed_by_user_id = (case uid of Some u \<Rightarrow> u | None \<Rightarrow> c_student_id NEW),
             h_from_status = map_option c_status OLD,
             h_to_status = c_status NEW, h_note_snapshot = c_admin_note NEW,
             h_changed_at = now\<rparr>]\<rparr>"
  using assms
  by (cases OLD) (auto simp: log_complaint_status_change_def insert_history_definer_def
      split: option.splits if_splits)

lemma log_same_status:
  "c_status OLD = c_status NEW \<Longrightarrow>
   log_complaint_status_change d uid now hid (Some OLD) NEW = Inr d"
  by (simp add: log_complaint_status_change_def)

lemma complaints_update_admin:
  assumes "has_role d uid role_admin" "distinct (map c_id (complaints d))" "old \<in> set (complaints d)"
  shows "update_complaints d uid now hid (c_id old) status note =
     (let NEW = old\<lparr>c_status := status, c_admin_note := note, c_updated_at := now\<rparr>
      in if \<not> complaints_check NEW then Inl CheckViolation
         else log_complaint_status_change
                (d\<lparr>complaints := map (\<lambda>c. if c_id c = c_id old then NEW else c) (complaints d)\<rparr>)
                uid now hid (Some old) NEW)"
proof -
  have row: "find (\<lambda>c. c_id c = c_id old \<and> complaints_select_policy d uid c
                     \<and> complaints_update_policy d uid c) (complaints d) = Some old"
    by (rule find_admin_row [OF assms])
  have pol: "\<And>c. complaints_update_policy d uid c"
    using assms(1) by (simp add: complaints_update_policy_def)
  show ?thesis unfolding update_complaints_def row by (simp add: Let_def pol)
qed

lemma update_logs_change:
  assumes ok: "update_complaints d uid now hid (c_id old) status note = Inr d'"
      and admin: "has_role d uid role_admin"
      and keys: "distinct (map c_id (complaints d))"
      and old: "old \<in> set (complaints d)"
      and changed: "c_status old \<noteq> status"
  shows "history d' = history d @
           [\<lparr>h_id = hid, h_complaint_id = c_id old,
             h_changed_by_user_id = (case uid of Some u \<Rightarrow> u | None \<Rightarrow> c_student_id old),
             h_from_status = Some (c_status old),
             h_to_status = status, h_note_snapshot = note, h_changed_at = now\<rparr>]"
    and "complaints d' =
           map (\<lambda>c. if c_id c = c_id old
                     then old\<lparr>c_status := status, c_admin_note := note, c_updated_at := now\<rparr>
                     else c) (complaints d)"
proof -
  let ?NEW = "old\<lparr>c_status := status, c_admin_note := note, c_updated_at := now\<rparr>"
  let ?d1 = "d\<lparr>complaints := map (\<lambda>c. if c_id c = c_id old then ?NEW else c) (complaints d)\<rparr>"
  from ok complaints_update_admin [OF admin keys old, of now hid status "note"]
  have log: "log_complaint_status_change ?d1 uid now hid (Some old) ?NEW = Inr d'"
    by (simp add: Let_def split: if_splits)
  from changed have "Some old = None \<or> map_option c_status (Some old) \<noteq> Some (c_status ?NEW)"
    by simp
  from log_appends [OF log this]
  show "history d' = history d @
           [\<lparr>h_id = hid, h_complaint_id = c_id old,
             h_changed_by_user_id = (case uid of Some u \<Rightarrow> u | None \<Rightarrow> c_student_id old),
             h_from_status = Some (c_status old),
             h_to_status = status, h_note_snapshot = note, h_changed_at = now\<rparr>]"
    and "complaints d' =
           map (\<lambda>c. if c_id c = c_id old
                     then old\<lparr>c_status := status, c_admin_note := note, c_updated_at := now\<rparr>
                     else c) (complaints d)"
    by (simp_all split: option.splits)
qed

lemma handleSave_ok:
  "handleSave d uid now hid complaint cid status adminNote = (None, d') \<Longrightarrow>
   update_complaints d uid now hid cid status
     (if trim adminNote = [] then None else Some (trim adminNote)) = Inr d'"
  by (auto simp: handleSave_def split: if_splits sum.splits)

lemma insert_logs:
  assumes "insert_complaints d uid now hid NEW = Inr d'"
  shows "history d' = history d @
           [\<lparr>h_id = hid, h_complaint_id = c_id NEW,
             h_changed_by_user_id = (case uid of Some u \<Rightarrow> u | None \<Rightarrow> c_student_id NEW),
             h_from_status = None,
             h_to_status = c_status NEW, h_note_snapshot = c_admin_note NEW,
             h_changed_at = now\<rparr>]"
    and "complaints d' = complaints d @ [NEW]"
    and "profiles d' = profiles d" and "user_roles d' = user_roles d"
    and "attachments d' = attachments d" and "objects d' = objects d"
    and "c_id NEW \<notin> set (map c_id (complaints d))"
proof -
  from assms have log:
    "log_complaint_status_change (d\<lparr>complaints := complaints d @ [NEW]\<rparr>) uid now hid None NEW
       = Inr d'"
    and fresh: "c_id NEW \<notin> set (map c_id (complaints d))"
    by (auto simp: insert_complaints_def split: if_splits)
  from log_appends [OF log] fresh
  show "history d' = history d @
           [\<lparr>h_id = hid, h_complaint_id = c_id NEW,
             h_changed_by_user_id = (case uid of Some u \<Rightarrow> u | None \<Rightarrow> c_student_id NEW),
             h_from_status = None,
             h_to_status = c_status NEW, h_note_snapshot = c_admin_note NEW,
             h_changed_at = now\<rparr>]"
    and "complaints d' = complaints d @ [NEW]"
    and "profiles d' = profiles d" and "user_roles d' = user_roles d"
    and "attachments d' = attachments d" and "objects d' = objects d"
    and "c_id NEW \<notin> set (map c_id (complaints d))"
    by simp_all
qed

text \<open>
  C2 (as the code has it). A save by an admin that changes the status of the complaint
  \<open>old\<close> and succeeds leaves the ledger with exactly one more entry: from the status
  before the call, to the new status, with the note the update stored in the complaint.
  An insert of a complaint that succeeds appends exactly one entry too, from no status to
  the inserted status, with the inserted note.
\<close>

theorem status_change_logged_once:
  "(handleSave d uid now hid complaint (c_id old) status adminNote = (None, d')
      \<and> has_role d uid role_admin \<and> distinct (map c_id (complaints d))
      \<and> old \<in> set (complaints d) \<and> c_status old \<noteq> status
    \<longrightarrow> (\<exists>h. history d' = history d @ [h] \<and> h_complaint_id h = c_id old
             \<and> h_from_status h = Some (c_status old) \<and> h_to_status h = status
             \<and> h_note_snapshot h = (if trim adminNote = [] then None else Some (trim adminNote))
             \<and> complaints d' =
                 map (\<lambda>c. if c_id c = c_id old
                           then old\<lparr>c_status := status, c_admin_note := h_note_snapshot h,
                                    c_updated_at := now\<rparr>
                           else c) (complaints d)))
   \<and> (insert_complaints d uid now hid NEW = Inr d''
    \<longrightarrow> (\<exists>h. history d'' = history d @ [h] \<and> h_complaint_id h = c_id NEW
             \<and> h_from_status h = None \<and> h_to_status h = c_status NEW
             \<and> h_note_snapshot h = c_admin_note NEW))"
proof (intro conjI impI)
  assume a: "handleSave d uid now hid complaint (c_id old) status adminNote = (None, d')
      \<and> has_role d uid role_admin \<and> distinct (map c_id (complaints d))
      \<and> old \<in> set (complaints d) \<and> c_status old \<noteq> status"
  let ?note = "if trim adminNote = [] then None else Some (trim adminNote)"
  from a have upd: "update_complaints d uid now hid (c_id old) status ?note = Inr d'"
    using handleSave_ok by blast
  from a have rest: "has_role d uid role_admin" "distinct (map c_id (complaints d))"
    "old \<in> set (complaints d)" "c_status old \<noteq> status" by simp_all
  note h = update_logs_change [OF upd rest]
  show "\<exists>h. history d' = history d @ [h] \<and> h_complaint_id h = c_id old
             \<and> h_from_status h = Some (c_status old) \<and> h_to_status h = status
             \<and> h_note_snapshot h = ?note
             \<and> complaints d' =
                 map (\<lambda>c. if c_id c = c_id old
                           then old\<lparr>c_status := status, c_admin_note := h_note_snapshot h,
                                    c_updated_at := now\<rparr>
                           else c) (complaints d)"
    using h by simp
next
  assume "insert_complaints d uid now hid NEW = Inr d''"
  from insert_logs(1) [OF this]
  show "\<exists>h. history d'' = history d @ [h] \<and> h_complaint_id h = c_id NEW
             \<and> h_from_status h = None \<and> h_to_status h = c_status NEW
             \<and> h_note_snapshot h = c_admin_note NEW"
    by simp
qed

theorem status_change_logged_once_witness:
  "handleSave store (Some ''a1'') 40 ''h4'' (Some wifi) (c_id wifi) st_in_progress ''on it''
     = (None, store\<lparr>complaints :=
                     [wifi\<lparr>c_status := st_in_progress, c_admin_note := Some ''on it'',
                           c_updated_at := 40\<rparr>, refund],
                   history := history store @
                     [\<lparr>h_id = ''h4'', h_complaint_id = ''c1'', h_changed_by_user_id = ''a1'',
                       h_from_status = Some st_open, h_to_status = st_in_progress,
                       h_note_snapshot = Some ''on it'', h_changed_at = 40\<rparr>]\<rparr>)
   \<and> has_role store (Some ''a1'') role_admin \<and> distinct (map c_id (complaints store))
   \<and> wifi \<in> set (complaints store) \<and> c_status wifi \<noteq> st_in_progress
   \<and> insert_complaints store (Some ''s2'') 50 ''h5''
         \<lparr>c_id = ''c3'', c_student_id = ''s2'', c_title = ''Noise'', c_category = cat_peer,
          c_description = ''Loud'', c_attachment_id = None, c_status = st_open,
          c_admin_note = None, c_created_at = 50, c_updated_at = 50\<rparr>
       = Inr (store\<lparr>complaints := complaints store @
                     [\<lparr>c_id = ''c3'', c_student_id = ''s2'', c_title = ''Noise'',
                       c_category = cat_peer, c_description = ''Loud'',
                       c_attachment_id = None, c_status = st_open, c_admin_note = None,
                       c_created_at = 50, c_updated_at = 50\<rparr>],
                   history := history store @
                     [\<lparr>h_id = ''h5'', h_complaint_id = ''c3'', h_changed_by_user_id = ''s2'',
                       h_from_status = None, h_to_status = st_open,
                       h_note_snapshot = None, h_changed_at = 50\<rparr>]\<rparr>)"
  using status_change_logged_once [of store "Some ''a1''" 40 "''h4''" "Some wifi" wifi
      st_in_progress "''on it''"]
  by (simp add: handleSave_def update_complaints_def insert_complaints_def
      log_complaint_status_change_def insert_history_definer_def history_constraints_def
      complaints_check_def complaints_select_policy_def complaints_update_policy_def
      complaints_insert_policy_def has_role_def trim_def isWhiteSpace_def
      store_def wifi_def refund_def alice_def bob_def carol_def)

text \<open>
  The claim as the specification states it, for every successful call, fails for a save
  that keeps the status: it succeeds and the ledger is what it was.
\<close>

theorem same_status_save_counterexample:
  "fst (handleSave store (Some ''a1'') 40 ''h4'' (Some wifi) ''c1'' st_open ''checking'') = None
   \<and> history (snd (handleSave store (Some ''a1'') 40 ''h4'' (Some wifi) ''c1'' st_open ''checking''))
       = history store"
  by (simp add: handleSave_def update_complaints_def
      log_complaint_status_change_def 
      complaints_check_def complaints_select_policy_def complaints_update_policy_def
      has_role_def trim_def isWhiteSpace_def
      store_def wifi_def refund_def)

section \<open>A note-only edit leaves no trace in the ledger\<close>

text \<open>
  C10. An admin's update that keeps the status of the complaint \<open>old\<close> succeeds (the
  stored row and the new note being within the table's checks): the row gets the new
  \<open>admin_note\<close> and \<open>updated_at = now\<close>, and nothing else in the store changes, the
  ledger included. The page's \<open>handleSave\<close> sends exactly this update when its copy of
  the complaint is not resolved.
\<close>

theorem note_only_update_not_logged:
  assumes admin: "has_role d uid role_admin"
      and keys: "distinct (map c_id (complaints d))"
      and old: "old \<in> set (complaints d)"
      and chk: "complaints_check old"
      and len: "length (trim adminNote) \<le> 5000"
      and len': "(case admin_note of None \<Rightarrow> True | Some n \<Rightarrow> length n \<le> 5000)"
  shows "update_complaints d uid now hid (c_id old) (c_status old) admin_note =
           Inr (d\<lparr>complaints :=
                    map (\<lambda>c. if c_id c = c_id old
                              then old\<lparr>c_admin_note := admin_note, c_updated_at := now\<rparr>
                              else c) (complaints d)\<rparr>)
         \<and> (c_status old \<noteq> st_resolved \<longrightarrow>
              handleSave d uid now hid (Some old) (c_id old) (c_status old) adminNote =
                (None, d\<lparr>complaints :=
                    map (\<lambda>c. if c_id c = c_id old
                              then old\<lparr>c_admin_note :=
                                         (if trim adminNote = [] then None
                                          else Some (trim adminNote)),
                                       c_updated_at := now\<rparr>
                              else c) (complaints d)\<rparr>))"
proof -
  have upd: "update_complaints d uid now hid (c_id old) (c_status old) n =
           Inr (d\<lparr>complaints :=
                    map (\<lambda>c. if c_id c = c_id old
                              then old\<lparr>c_admin_note := n, c_updated_at := now\<rparr>
                              else c) (complaints d)\<rparr>)"
    if "case n of None \<Rightarrow> True | Some n \<Rightarrow> length n \<le> 5000" for n
  proof -
    have "complaints_check (old\<lparr>c_status := c_status old, c_admin_note := n, c_updated_at := now\<rparr>)"
      using chk that by (simp add: complaints_check_def)
    then show ?thesis
      by (simp add: complaints_update_admin [OF admin keys old] Let_def log_same_status)
  qed
  have "case (if trim adminNote = [] then None else Some (trim adminNote)) of
          None \<Rightarrow> True | Some n \<Rightarrow> length n \<le> 5000"
    using len by simp
  from upd [OF this] upd [OF len'] show ?thesis
    by (simp add: handleSave_def)
qed

theorem note_only_update_not_logged_witness:
  "has_role store (Some ''a1'') role_admin \<and> distinct (map c_id (complaints store))
   \<and> wifi \<in> set (complaints store) \<and> complaints_check wifi
   \<and> length (trim '' seen '') \<le> 5000
   \<and> update_complaints store (Some ''a1'') 40 ''h4'' ''c1'' st_open (Some ''seen'')
       = Inr (store\<lparr>complaints :=
                [wifi\<lparr>c_admin_note := Some ''seen'', c_updated_at := 40\<rparr>, refund]\<rparr>)
   \<and> c_status wifi \<noteq> st_resolved
   \<and> handleSave store (Some ''a1'') 40 ''h4'' (Some wifi) ''c1'' st_open '' seen ''
       = (None, store\<lparr>complaints :=
                [wifi\<lparr>c_admin_note := Some ''seen'', c_updated_at := 40\<rparr>, refund]\<rparr>)"
  using note_only_update_not_logged [of store "Some ''a1''" wifi "'' seen ''" "Some ''seen''"
      40 "''h4''"]
  by (simp add: has_role_def complaints_check_def trim_def isWhiteSpace_def
      store_def wifi_def refund_def)

section \<open>Who can write the ledger\<close>

text \<open>
  C4 (the code at the failing input). The insert policy of the history table holds for
  every caller, so the student \<open>s2\<close>, who is no admin and does not own the complaint,
  inserts the row \<open>forged\<close> with a plain client call; no trigger is involved.
\<close>

theorem student_inserts_history:
  "\<not> is_admin store (Some ''s2'')
   \<and> insert_history store (Some ''s2'') forged
       = Inr (store\<lparr>history := history store @ [forged]\<rparr>)"
  by (simp add: is_admin_def has_role_def insert_history_def history_insert_policy_def
      insert_history_definer_def history_constraints_def forged_def
      store_def wifi_def refund_def alice_def bob_def carol_def)

section \<open>What another student can read\<close>

lemma same_key_same_row:
  "distinct (map key xs) \<Longrightarrow> x \<in> set xs \<Longrightarrow> y \<in> set xs \<Longrightarrow> key x = key y \<Longrightarrow> x = y"
  by (meson distinct_map inj_on_eq_iff)

lemma hidden_complaint:
  assumes "\<not> has_role d (Some s) role_admin" "distinct (map c_id (complaints d))"
    "c \<in> set (complaints d)" "s \<noteq> c_student_id c"
  shows "filter (\<lambda>x. c_id x = c_id c)
           (filter (complaints_select_policy d (Some s)) (complaints d)) = []"
proof -
  have "\<not> complaints_select_policy d (Some s) x" if "x \<in> set (complaints d)" "c_id x = c_id c" for x
  proof -
    from same_key_same_row [OF assms(2) that(1) assms(3) that(2)] have "x = c" .
    with assms(1,4) show ?thesis by (simp add: complaints_select_policy_def)
  qed
  then show ?thesis by (auto simp: filter_empty_conv)
qed

lemma hidden_history:
  assumes "\<not> has_role d (Some s) role_admin" "distinct (map c_id (complaints d))"
    "c \<in> set (complaints d)" "s \<noteq> c_student_id c"
  shows "filter (\<lambda>h. h_complaint_id h = c_id c)
           (filter (history_select_policy d (Some s)) (history d)) = []"
proof -
  have "\<not> history_select_policy d (Some s) h" if "h_complaint_id h = c_id c" for h
  proof -
    have "c_student_id x \<noteq> s" if "x \<in> set (complaints d)" "c_id x = c_id c" for x
      using same_key_same_row [OF assms(2) that(1) assms(3) that(2)] assms(4) by simp
    with \<open>h_complaint_id h = c_id c\<close> assms(1) show ?thesis
      by (auto simp: history_select_policy_def is_admin_def list_ex_iff)
  qed
  then show ?thesis by (auto simp: filter_empty_conv)
qed

text \<open>
  C5 (as the code has it). A principal \<open>s\<close> without the admin role who is not the
  student of the complaint \<open>c\<close> gets no data, and no \<open>Unauthorized\<close> either: row-level
  security hides the rows. The complaint query finds no row (\<open>NotFound\<close>, the page
  says "Complaint not found"), the history query returns the empty list, and the page's
  download, from the copy of the complaint it could not load, returns nothing. Even with
  a copy of the complaint in hand the download returns nothing, unless \<open>s\<close> owns the
  attachment the complaint refers to.
\<close>

theorem other_student_reads_nothing:
  assumes "\<not> is_admin d (Some s)" and "distinct (map c_id (complaints d))"
      and "c \<in> set (complaints d)" and "s \<noteq> c_student_id c"
  shows "fetchComplaint d (Some s) (c_id c) = Inl NotFound
         \<and> fetchHistory d (Some s) (c_id c) = []
         \<and> downloadAttachment d (Some s)
             (case fetchComplaint d (Some s) (c_id c) of Inl e \<Rightarrow> None | Inr x \<Rightarrow> Some x) = None
         \<and> (list_all (\<lambda>a. Some (a_id a) = c_attachment_id c \<longrightarrow> a_owner_user_id a \<noteq> s)
               (attachments d)
             \<longrightarrow> downloadAttachment d (Some s) (Some c) = None)"
proof -
  from assms(1) have na: "\<not> has_role d (Some s) role_admin" by (simp add: is_admin_def)
  have get: "fetchComplaint d (Some s) (c_id c) = Inl NotFound"
    unfolding fetchComplaint_def hidden_complaint [OF na assms(2,3,4)] by (simp add: single_def)
  have hist: "fetchHistory d (Some s) (c_id c) = []"
    unfolding fetchHistory_def hidden_history [OF na assms(2,3,4)] by simp
  have page: "downloadAttachment d (Some s)
             (case fetchComplaint d (Some s) (c_id c) of Inl e \<Rightarrow> None | Inr x \<Rightarrow> Some x) = None"
    by (simp add: get downloadAttachment_def)
  have direct: "downloadAttachment d (Some s) (Some c) = None"
    if "list_all (\<lambda>a. Some (a_id a) = c_attachment_id c \<longrightarrow> a_owner_user_id a \<noteq> s)
               (attachments d)"
  proof (cases "c_attachment_id c")
    case None
    then show ?thesis by (simp add: downloadAttachment_def)
  next
    case (Some aid)
    with that assms(1) have "filter (\<lambda>a. a_id a = aid)
             (filter (attachments_select_policy d (Some s)) (attachments d)) = []"
      by (auto simp: filter_empty_conv list_all_iff attachments_select_policy_def)
    then have "single (filter (\<lambda>a. a_id a = aid)
             (filter (attachments_select_policy d (Some s)) (attachments d))) = Inl NotFound"
      unfolding single_def by (simp only: list.case)
    with Some show ?thesis unfolding downloadAttachment_def by (simp only: option.case sum.case)
  qed
  from get hist page direct show ?thesis by blast
qed

theorem other_student_reads_nothing_witness:
  "\<not> is_admin store (Some ''s2'') \<and> distinct (map c_id (complaints store))
   \<and> refund \<in> set (complaints store) \<and> ''s2'' \<noteq> c_student_id refund
   \<and> fetchComplaint store (Some ''s2'') ''c2'' = Inl NotFound
   \<and> fetchHistory store (Some ''s2'') ''c2'' = []
   \<and> list_all (\<lambda>a. Some (a_id a) \<noteq> c_attachment_id refund \<or> a_owner_user_id a \<noteq> ''s2'')
        (attachments store)
   \<and> downloadAttachment store (Some ''s2'') (Some refund) = None"
  using other_student_reads_nothing [of store "''s2''" refund]
  by (simp add: is_admin_def has_role_def store_def wifi_def refund_def)

text \<open>
  The claim as the specification states it, \<open>Unauthorized\<close> on all three reads, fails
  for student \<open>s2\<close> and the complaint \<open>refund\<close> of student \<open>s1\<close>: the complaint
  query answers \<open>NotFound\<close> and the history query succeeds with no rows.
\<close>

theorem other_student_get_counterexample:
  "\<not> is_admin store (Some ''s2'') \<and> ''s2'' \<noteq> c_student_id refund
   \<and> fetchComplaint store (Some ''s2'') (c_id refund) = Inl NotFound
   \<and> fetchComplaint store (Some ''s2'') (c_id refund) \<noteq> Inl Unauthorized
   \<and> fetchHistory store (Some ''s2'') (c_id refund) = []"
  by (simp add: is_admin_def has_role_def fetchComplaint_def fetchHistory_def single_def
      complaints_select_policy_def history_select_policy_def store_def wifi_def refund_def)

section \<open>A profile keeps its role\<close>

lemma find_in_filter:
  "distinct (map key xs) \<Longrightarrow> x \<in> set xs \<Longrightarrow> P x \<Longrightarrow>
   find (\<lambda>y. key y = key x) (filter P xs) = Some x"
  by (induction xs) (auto simp: rev_image_eqI)

text \<open>
  C9. Whatever columns an update of \<open>profiles\<close> sets and whatever rows it selects, whoever
  the caller: if the statement succeeds, every profile has the role and the id it had,
  and \<open>user_roles\<close> is what it was. The caller reaches their own row only, and the
  policy's check compares the new row's role with the stored one.
\<close>

theorem profile_role_immutable:
  assumes ok: "update_profiles d uid now flt patch = Inr d'"
      and keys: "distinct (map p_id (profiles d))"
  shows "map p_role (profiles d') = map p_role (profiles d)
         \<and> map p_id (profiles d') = map p_id (profiles d)
         \<and> user_roles d' = user_roles d"
proof -
  let ?target = "\<lambda>p. flt p \<and> profiles_select_policy d uid p \<and> profiles_update_using d uid p"
  let ?new = "\<lambda>p. (apply_patch patch p)\<lparr>p_updated_at := now\<rparr>"
  from ok have d': "d' = d\<lparr>profiles := map (\<lambda>p. if ?target p then ?new p else p) (profiles d)\<rparr>"
    and chk: "\<not> list_ex (\<lambda>p. ?target p \<and> \<not> profiles_update_check d uid (?new p)) (profiles d)"
    by (auto simp: update_profiles_def Let_def split: if_splits)
  have same: "p_role (?new p) = p_role p \<and> p_id (?new p) = p_id p"
    if p: "p \<in> set (profiles d)" and t: "?target p" for p
  proof -
    from chk p t have c: "profiles_update_check d uid (?new p)" by (auto simp: list_ex_iff)
    from t have u: "uid = Some (p_id p)" by (simp add: profiles_update_using_def)
    from t have sel: "profiles_select_policy d uid p" by simp
    have f: "find (\<lambda>q. Some (p_id q) = uid) (filter (profiles_select_policy d uid) (profiles d))
            = Some p"
      using find_in_filter [of p_id "profiles d" p "profiles_select_policy d uid", OF keys p sel]
      unfolding u by simp
    from c have c1: "uid = Some (p_id (?new p))"
      and c2: "Some (p_role (?new p)) =
                 map_option p_role
                   (find (\<lambda>q. Some (p_id q) = uid)
                      (filter (profiles_select_policy d uid) (profiles d)))"
      unfolding profiles_update_check_def by blast+
    from c2 have "p_role (?new p) = p_role p" unfolding f by simp
    moreover from c1 u have "p_id (?new p) = p_id p" by simp
    ultimately show ?thesis by simp
  qed
  then show ?thesis unfolding d' by (auto simp: map_eq_conv)
qed

theorem profile_role_immutable_witness:
  "update_profiles store (Some ''s1'') 60 (\<lambda>p. p_id p = ''s1'')
      \<lparr>set_id = None, set_role = None, set_full_name = Some ''Alice R'',
       set_email = Some ''alice.r@example.org'', set_is_active = None,
       set_created_at = None, set_updated_at = None\<rparr>
     = Inr (store\<lparr>profiles :=
              [alice\<lparr>p_full_name := ''Alice R'', p_email := ''alice.r@example.org'',
                     p_updated_at := 60\<rparr>, bob, carol]\<rparr>)
   \<and> distinct (map p_id (profiles store))
   \<and> map p_role (profiles (store\<lparr>profiles :=
              [alice\<lparr>p_full_name := ''Alice R'', p_email := ''alice.r@example.org'',
                     p_updated_at := 60\<rparr>, bob, carol]\<rparr>)) = map p_role (profiles store)"
  using profile_role_immutable [of store "Some ''s1''" 60 "\<lambda>p. p_id p = ''s1''"
      "\<lparr>set_id = None, set_role = None, set_full_name = Some ''Alice R'',
       set_email = Some ''alice.r@example.org'', set_is_active = None,
       set_created_at = None, set_updated_at = None\<rparr>"]
  by (simp add: update_profiles_def profiles_select_policy_def profiles_update_using_def
      profiles_update_check_def profiles_check_def apply_patch_def has_role_def
      store_def alice_def bob_def carol_def)

text \<open>Student \<open>s1\<close> asking for the admin role is refused by the policy's check.\<close>

lemma role_change_refused:
  "update_profiles store (Some ''s1'') 60 (\<lambda>p. p_id p = ''s1'')
      \<lparr>set_id = None, set_role = Some role_admin, set_full_name = None,
       set_email = None, set_is_active = None,
       set_created_at = None, set_updated_at = None\<rparr> = Inl Unauthorized"
  by (simp add: update_profiles_def profiles_select_policy_def profiles_update_using_def
      profiles_update_check_def apply_patch_def has_role_def
      store_def alice_def bob_def carol_def)

section \<open>Files that are not accepted\<close>

text \<open>
  C7 (as the code has it). A picked file whose type is none of \<open>application/pdf\<close>,
  \<open>image/jpeg\<close>, \<open>image/png\<close>, \<open>image/jpg\<close>, or whose size exceeds 10,485,760 bytes, is
  rejected with \<open>ValidationError\<close> and the form keeps the file it had, so the file is
  never submitted. Were it submitted all the same, the bucket would refuse it: the upload
  step fails and the store has no new blob and no new attachment record.
\<close>

theorem upload_rejects_bad_type_or_size:
  assumes "f_type f \<notin> {''application/pdf'', ''image/jpeg'', ''image/png'', ''image/jpg''}
           \<or> f_size f > 10485760"
  shows "handleFileChange file (Some f) = (Some ValidationError, file)
         \<and> (\<exists>e. upload_file d u now date_now aid f = Inl (e, d))"
proof -
  from assms have client: "handleFileChange file (Some f) = (Some ValidationError, file)"
    by (auto simp: handleFileChange_def validTypes_def maxSize_def)
  let ?fileName = "u @ ''/'' @ date_now @ ''.'' @ last (split_on (CHR ''.'') (f_name f))"
  from assms have "\<exists>e. storage_upload d (Some u) ''complaint-attachments'' name f = Inl e"
    for name
    by (auto simp: storage_upload_def Let_def file_size_limit_def allowed_mime_types_def)
  then obtain e where
    "storage_upload d (Some u) ''complaint-attachments'' ?fileName f = Inl e"
    by blast
  then have "upload_file d u now date_now aid f = Inl (e, d)"
    by (simp add: upload_file_def Let_def)
  with client show ?thesis by simp
qed

theorem upload_rejects_bad_type_or_size_witness:
  "f_size \<lparr>f_name = ''notes.txt'', f_type = ''text/plain'', f_size = 11534336\<rparr> > 10485760
   \<and> handleFileChange (Some receipt)
        (Some \<lparr>f_name = ''notes.txt'', f_type = ''text/plain'', f_size = 11534336\<rparr>)
       = (Some ValidationError, Some receipt)
   \<and> upload_file store ''s1'' 50 ''1700'' ''t2''
        \<lparr>f_name = ''notes.txt'', f_type = ''text/plain'', f_size = 11534336\<rparr>
       = Inl (PayloadTooLarge, store)"
  using upload_rejects_bad_type_or_size
    [of "\<lparr>f_name = ''notes.txt'', f_type = ''text/plain'', f_size = 11534336\<rparr>"
        "Some receipt" store "''s1''" 50 "''1700''" "''t2''"]
  by (simp add: upload_file_def storage_upload_def file_size_limit_def)

text \<open>
  The claim as the specification states it, with three allowed types, fails for a file of
  type \<open>image/jpg\<close>: the form accepts it, and the upload creates the blob and the
  attachment record.
\<close>

theorem image_jpg_accepted_counterexample:
  "f_type photo \<notin> {''application/pdf'', ''image/jpeg'', ''image/png''}
   \<and> f_size photo \<le> 10485760
   \<and> handleFileChange None (Some photo) = (None, Some photo)
   \<and> upload_file store ''s1'' 50 ''1700'' ''t2'' photo =
       Inr (store\<lparr>attachments := attachments store @
                    [\<lparr>a_id = ''t2'', a_owner_user_id = ''s1'', a_complaint_id = None,
                      a_original_filename = ''desk.jpg'', a_stored_path = ''s1/1700.jpg'',
                      a_mime_type = ''image/jpg'', a_byte_size = 4096, a_created_at = 50\<rparr>],
                  objects := objects store @
                    [\<lparr>o_bucket_id = ''complaint-attachments'', o_name = ''s1/1700.jpg'',
                      o_file = photo\<rparr>]\<rparr>, Some ''t2'')"
  by (simp add: photo_def handleFileChange_def validTypes_def maxSize_def upload_file_def
      storage_upload_def file_size_limit_def allowed_mime_types_def objects_insert_policy_def
      foldername_def insert_attachments_def attachments_insert_policy_def
      attachments_select_policy_def attachments_check_def
      store_def alice_def bob_def carol_def receipt_def Let_def)

section \<open>The admin's search\<close>

lemma list_ex_by_key:
  "distinct (map key xs) \<Longrightarrow>
   list_ex (\<lambda>p. key p = k \<and> Q p) xs =
     (case find (\<lambda>p. key p = k) xs of None \<Rightarrow> False | Some p \<Rightarrow> Q p)"
  by (induction xs) (auto simp: list_ex_iff rev_image_eqI)

lemma student_of_admin:
  "has_role d uid role_admin \<Longrightarrow>
   student_of d uid c = find (\<lambda>p. p_id p = c_student_id c) (profiles d)"
  by (simp add: student_of_def profiles_select_policy_def)

lemma fetchComplaints_admin:
  "has_role d uid role_admin \<Longrightarrow>
   fetchComplaints d uid =
     map (\<lambda>c. (c, find (\<lambda>p. p_id p = c_student_id c) (profiles d)))
       (rev (sort_key c_created_at (complaints d)))"
  by (simp add: fetchComplaints_def student_of_admin complaints_select_policy_def)

lemma search_row:
  assumes "distinct (map p_id (profiles d))" "t \<noteq> []"
  shows "(str_includes (toLowerCase (c_title c)) (toLowerCase t)
          \<or> str_includes (toLowerCase (c_description c)) (toLowerCase t)
          \<or> (case find (\<lambda>p. p_id p = c_student_id c) (profiles d) of None \<Rightarrow> False
              | Some p \<Rightarrow> str_includes (toLowerCase (p_email p)) (toLowerCase t))
          \<or> (case find (\<lambda>p. p_id p = c_student_id c) (profiles d) of None \<Rightarrow> False
              | Some p \<Rightarrow> str_includes (toLowerCase (p_full_name p)) (toLowerCase t)))
         = search_matches d t c"
  unfolding search_matches_def list_ex_by_key [OF assms(1)]
  by (auto simp: contains_ci_def str_includes_def split: option.splits)

text \<open>
  A term in capitals that ends in E with acute accent (201) is found in a title that has
  the small letter (233).
\<close>

lemma contains_ci_latin1:
  "contains_ci (''Caf'' @ [char_of (233 :: nat)] @ '' closed'') (''CAF'' @ [char_of (201 :: nat)])"
  by code_simp

lemma search_blank: "search_matches d [] c"
  by (simp add: search_matches_def contains_ci_def toLowerCase_def)

text \<open>
  C8 (as the code has it). For an admin, what the dashboard lists is the complaints of the
  store, newest first, of which it keeps exactly those whose title, description, or
  student's name or email contains the search term case-insensitively, and that pass the
  status and the category filter. The matching is \<open>filterComplaints\<close>, a scan in the
  page over the rows that \<open>fetchComplaints\<close> fetched; the query joins the student in
  but does not see the term.
\<close>

theorem search_filters_fetched_rows:
  assumes "has_role d uid role_admin" and "distinct (map p_id (profiles d))"
  shows "map fst (filterComplaints (fetchComplaints d uid) t statusFilter categoryFilter) =
           filter (\<lambda>c. search_matches d t c
                        \<and> (case statusFilter of None \<Rightarrow> True | Some s \<Rightarrow> c_status c = s)
                        \<and> (case categoryFilter of None \<Rightarrow> True | Some k \<Rightarrow> c_category c = k))
             (rev (sort_key c_created_at (complaints d)))"
proof -
  let ?rows = "rev (sort_key c_created_at (complaints d))"
  let ?join = "\<lambda>c. (c, find (\<lambda>p. p_id p = c_student_id c) (profiles d))"
  have srch: "(if t \<noteq> [] then
                 filter (\<lambda>(c, student).
                     str_includes (toLowerCase (c_title c)) (toLowerCase t)
                     \<or> str_includes (toLowerCase (c_description c)) (toLowerCase t)
                     \<or> (case student of None \<Rightarrow> False
                         | Some p \<Rightarrow> str_includes (toLowerCase (p_email p)) (toLowerCase t))
                     \<or> (case student of None \<Rightarrow> False
                         | Some p \<Rightarrow> str_includes (toLowerCase (p_full_name p)) (toLowerCase t)))
                   (map ?join ?rows)
               else map ?join ?rows) = map ?join (filter (search_matches d t) ?rows)"
  proof (cases "t = []")
    case True
    then show ?thesis by (simp add: search_blank)
  next
    case False
    then show ?thesis
      by (simp add: filter_map o_def search_row [OF assms(2) False])
  qed
  have by_status: "filter (\<lambda>(c, student). c_status c = s) (map ?join ys)
                     = map ?join (filter (\<lambda>c. c_status c = s) ys)" for s ys
    by (simp add: filter_map o_def)
  have by_category: "filter (\<lambda>(c, student). c_category c = k) (map ?join ys)
                     = map ?join (filter (\<lambda>c. c_category c = k) ys)" for k ys
    by (simp add: filter_map o_def)
  have fst_join: "map fst (map ?join ys) = ys" for ys
    by (simp add: o_def)
  show ?thesis
    unfolding fetchComplaints_admin [OF assms(1)] filterComplaints_def Let_def srch
    by (cases statusFilter; cases categoryFilter)
       (auto simp only: option.case by_status by_category fst_join filter_filter simp_thms
          intro!: filter_cong [OF refl])
qed

theorem search_filters_fetched_rows_witness:
  "has_role store (Some ''a1'') role_admin \<and> distinct (map p_id (profiles store))
   \<and> map fst (filterComplaints (fetchComplaints store (Some ''a1'')) ''ALICE'' None
        (Some cat_admin)) = [refund]
   \<and> filter (\<lambda>c. search_matches store ''ALICE'' c \<and> c_category c = cat_admin)
        (rev (sort_key c_created_at (complaints store))) = [refund]"
proof -
  have admin: "has_role store (Some ''a1'') role_admin"
    by code_simp
  have keys: "distinct (map p_id (profiles store))"
    by code_simp
  have found: "filter (\<lambda>c. search_matches store ''ALICE'' c \<and> c_category c = cat_admin)
        (rev (sort_key c_created_at (complaints store))) = [refund]"
    by code_simp
  from search_filters_fetched_rows [OF admin keys, of "''ALICE''" None "Some cat_admin"]
    admin keys found
  show ?thesis by simp
qed

text \<open>
  The claim as the specification states it, matching in the data layer and not over
  fetched rows, fails: for the search term \<open>wifi\<close> the query still returns the
  complaint \<open>refund\<close>, which does not match, and the page's scan drops it.
\<close>

theorem search_fetches_all_rows_counterexample:
  "map (c_id \<circ> fst) (fetchComplaints store (Some ''a1'')) = [''c2'', ''c1'']
   \<and> \<not> search_matches store ''wifi'' refund
   \<and> map (c_id \<circ> fst) (filterComplaints (fetchComplaints store (Some ''a1'')) ''wifi'' None None)
       = [''c1'']"
  by code_simp

section \<open>Creating a complaint and reading it back\<close>

lemma upload_file_keeps:
  "upload_file d u now date_now aid f = Inr (d1, a) \<Longrightarrow>
   complaints d1 = complaints d \<and> history d1 = history d
   \<and> profiles d1 = profiles d \<and> user_roles d1 = user_roles d"
  by (auto simp: upload_file_def Let_def storage_upload_def insert_attachments_def
      split: sum.splits if_splits)

lemma handleSubmit_ok:
  assumes "handleSubmit d (Some s) now date_now aid cid hid title category description file
             = (None, d')"
  shows "\<exists>d1 cat a. complaints d1 = complaints d \<and> history d1 = history d
           \<and> profiles d1 = profiles d \<and> user_roles d1 = user_roles d
           \<and> insert_complaints d1 (Some s) now hid
                \<lparr>c_id = cid, c_student_id = s, c_title = trim title, c_category = cat,
                 c_description = trim description, c_attachment_id = a, c_status = st_open,
                 c_admin_note = None, c_created_at = now, c_updated_at = now\<rparr> = Inr d'"
proof (cases "file")
  case None
  with assms show ?thesis
    by (auto simp: handleSubmit_def split: option.splits if_splits sum.splits)
next
  case (Some f)
  with assms show ?thesis
    by (auto simp: handleSubmit_def split: option.splits if_splits sum.splits
        dest!: upload_file_keeps) blast
qed

lemma created_is_readable:
  assumes ins: "insert_complaints d1 (Some s) now hid NEW = Inr d'"
      and own: "c_student_id NEW = s"
      and fk: "list_all (\<lambda>h. h_complaint_id h \<in> set (map c_id (complaints d1))) (history d1)"
  shows "fetchComplaint d' (Some s) (c_id NEW) = Inr NEW"
    and "\<exists>h. fetchHistory d' (Some s) (c_id NEW) = [h]
             \<and> filter (\<lambda>x. h_complaint_id x = c_id NEW) (history d') = [h]
             \<and> h_from_status h = None \<and> h_to_status h = c_status NEW"
proof -
  note facts = insert_logs [OF ins]
  let ?h = "\<lparr>h_id = hid, h_complaint_id = c_id NEW,
             h_changed_by_user_id = (case Some s of Some u \<Rightarrow> u | None \<Rightarrow> c_student_id NEW),
             h_from_status = None,
             h_to_status = c_status NEW, h_note_snapshot = c_admin_note NEW,
             h_changed_at = now\<rparr>"
  have fresh: "\<forall>c \<in> set (complaints d1). c_id c \<noteq> c_id NEW"
    using facts(7) by (metis image_eqI list.set_map)
  have vis: "complaints_select_policy d' (Some s) NEW"
    using own by (simp add: complaints_select_policy_def)
  have "filter (\<lambda>c. c_id c = c_id NEW) (filter (complaints_select_policy d' (Some s)) (complaints d'))
          = [NEW]"
    using fresh vis by (simp add: facts(2) filter_empty_conv)
  then show "fetchComplaint d' (Some s) (c_id NEW) = Inr NEW"
    unfolding fetchComplaint_def by (simp add: single_def)
  have old: "\<forall>h \<in> set (history d1). h_complaint_id h \<noteq> c_id NEW"
    using fk fresh by (auto simp: list_all_iff)
  have hvis: "history_select_policy d' (Some s) ?h"
    using own vis by (auto simp: history_select_policy_def facts(2) list_ex_iff)
  have all: "filter (\<lambda>x. h_complaint_id x = c_id NEW) (history d') = [?h]"
    using old by (simp add: facts(1) filter_empty_conv)
  have "filter (\<lambda>x. h_complaint_id x = c_id NEW)
          (filter (history_select_policy d' (Some s)) (history d')) = [?h]"
    using old hvis by (simp add: facts(1) filter_empty_conv)
  then have "fetchHistory d' (Some s) (c_id NEW) = [?h]"
    unfolding fetchHistory_def by simp
  with all show "\<exists>h. fetchHistory d' (Some s) (c_id NEW) = [h]
             \<and> filter (\<lambda>x. h_complaint_id x = c_id NEW) (history d') = [h]
             \<and> h_from_status h = None \<and> h_to_status h = c_status NEW"
    by simp
qed

lemma handleSubmit_valid:
  assumes "titleSchema title" "descriptionSchema description"
    "s \<in> set (map p_id (profiles d))" "cid \<notin> set (map c_id (complaints d))"
    "hid \<notin> set (map h_id (history d))"
  shows "fst (handleSubmit d (Some s) now date_now aid cid hid title (Some cat) description None)
           = None"
  using assms
  by (auto simp: handleSubmit_def titleSchema_def descriptionSchema_def insert_complaints_def
      complaints_insert_policy_def complaints_check_def log_complaint_status_change_def
      insert_history_definer_def history_constraints_def)

text \<open>
  C6. In a store whose keys are in order: a submission by student \<open>s\<close> with a valid
  title, description and category, no file, a profile for \<open>s\<close> and fresh ids succeeds;
  and after any submission by \<open>s\<close> that succeeds (with or without file), \<open>s\<close> reads
  the complaint back with \<open>status = open\<close> and no \<open>admin_note\<close>, and the complaint has
  exactly one history entry, from no status to \<open>open\<close>, which \<open>s\<close> can read.
\<close>

theorem create_then_get:
  assumes inv: "keys_ok d"
  shows "(titleSchema title \<and> descriptionSchema description
            \<and> s \<in> set (map p_id (profiles d)) \<and> cid \<notin> set (map c_id (complaints d))
            \<and> hid \<notin> set (map h_id (history d))
          \<longrightarrow> fst (handleSubmit d (Some s) now date_now aid cid hid title (Some cat)
                     description None) = None)
         \<and> (handleSubmit d (Some s) now date_now aid cid hid title category description file
              = (None, d')
          \<longrightarrow> (\<exists>c h. fetchComplaint d' (Some s) cid = Inr c
                 \<and> c_student_id c = s \<and> c_status c = st_open \<and> c_admin_note c = None
                 \<and> fetchHistory d' (Some s) cid = [h]
                 \<and> filter (\<lambda>x. h_complaint_id x = cid) (history d') = [h]
                 \<and> h_from_status h = None \<and> h_to_status h = st_open))"
proof (intro conjI impI)
  assume "titleSchema title \<and> descriptionSchema description
            \<and> s \<in> set (map p_id (profiles d)) \<and> cid \<notin> set (map c_id (complaints d))
            \<and> hid \<notin> set (map h_id (history d))"
  then show "fst (handleSubmit d (Some s) now date_now aid cid hid title (Some cat)
                     description None) = None"
    using handleSubmit_valid by blast
next
  assume "handleSubmit d (Some s) now date_now aid cid hid title category description file
              = (None, d')"
  from handleSubmit_ok [OF this] obtain d1 cat' a where
    same: "complaints d1 = complaints d" "history d1 = history d"
    and ins: "insert_complaints d1 (Some s) now hid
                \<lparr>c_id = cid, c_student_id = s, c_title = trim title, c_category = cat',
                 c_description = trim description, c_attachment_id = a, c_status = st_open,
                 c_admin_note = None, c_created_at = now, c_updated_at = now\<rparr> = Inr d'"
    by blast
  let ?NEW = "\<lparr>c_id = cid, c_student_id = s, c_title = trim title, c_category = cat',
                 c_description = trim description, c_attachment_id = a, c_status = st_open,
                 c_admin_note = None, c_created_at = now, c_updated_at = now\<rparr>"
  from inv same have fk:
    "list_all (\<lambda>h. h_complaint_id h \<in> set (map c_id (complaints d1))) (history d1)"
    by (simp add: keys_ok_def)
  from created_is_readable [OF ins _ fk]
  show "\<exists>c h. fetchComplaint d' (Some s) cid = Inr c
                 \<and> c_student_id c = s \<and> c_status c = st_open \<and> c_admin_note c = None
                 \<and> fetchHistory d' (Some s) cid = [h]
                 \<and> filter (\<lambda>x. h_complaint_id x = cid) (history d') = [h]
                 \<and> h_from_status h = None \<and> h_to_status h = st_open"
    by simp
qed

theorem create_then_get_witness:
  "keys_ok store
   \<and> titleSchema '' Noise '' \<and> descriptionSchema ''Loud''
   \<and> ''s2'' \<in> set (map p_id (profiles store)) \<and> ''c3'' \<notin> set (map c_id (complaints store))
   \<and> ''h4'' \<notin> set (map h_id (history store))
   \<and> fst (handleSubmit store (Some ''s2'') 50 ''1700'' ''t2'' ''c3'' ''h4'' '' Noise ''
            (Some cat_peer) ''Loud'' None) = None
   \<and> fetchComplaint
        (snd (handleSubmit store (Some ''s2'') 50 ''1700'' ''t2'' ''c3'' ''h4'' '' Noise ''
                (Some cat_peer) ''Loud'' None)) (Some ''s2'') ''c3''
       = Inr \<lparr>c_id = ''c3'', c_student_id = ''s2'', c_title = ''Noise'', c_category = cat_peer,
              c_description = ''Loud'', c_attachment_id = None, c_status = st_open,
              c_admin_note = None, c_created_at = 50, c_updated_at = 50\<rparr>
   \<and> length (fetchHistory
        (snd (handleSubmit store (Some ''s2'') 50 ''1700'' ''t2'' ''c3'' ''h4'' '' Noise ''
                (Some cat_peer) ''Loud'' None)) (Some ''s2'') ''c3'') = 1"
proof -
  let ?r = "handleSubmit store (Some ''s2'') 50 ''1700'' ''t2'' ''c3'' ''h4'' '' Noise ''
              (Some cat_peer) ''Loud'' None"
  have inv: "keys_ok store"
    by code_simp
  have valid: "titleSchema '' Noise '' \<and> descriptionSchema ''Loud''
     \<and> ''s2'' \<in> set (map p_id (profiles store)) \<and> ''c3'' \<notin> set (map c_id (complaints store))
     \<and> ''h4'' \<notin> set (map h_id (history store))"
    by code_simp
  note inst = create_then_get [OF inv, of "'' Noise ''" "''Loud''" "''s2''" "''c3''" "''h4''"
      50 "''1700''" "''t2''" cat_peer "Some cat_peer" None "snd ?r"]
  from inst valid have ok: "fst ?r = None" by blast
  then have "?r = (None, snd ?r)" by (simp add: prod_eq_iff)
  with inst obtain c h where
    "fetchComplaint (snd ?r) (Some ''s2'') ''c3'' = Inr c"
    "fetchHistory (snd ?r) (Some ''s2'') ''c3'' = [h]"
    by blast
  moreover have "fetchComplaint (snd ?r) (Some ''s2'') ''c3''
       = Inr \<lparr>c_id = ''c3'', c_student_id = ''s2'', c_title = ''Noise'', c_category = cat_peer,
              c_description = ''Loud'', c_attachment_id = None, c_status = st_open,
              c_admin_note = None, c_created_at = 50, c_updated_at = 50\<rparr>"
    by code_simp
  ultimately show ?thesis using inv valid ok by simp
qed

section \<open>The writes keep the keys in order\<close>

text \<open>
  The invariant \<open>keys_ok\<close> that the theorems above assume holds of the sample store
  and survives every successful insert and update of a complaint, trigger included.
\<close>

lemma log_keeps_keys:
  assumes "log_complaint_status_change d uid now hid OLD NEW = Inr d'"
      and "keys_ok d" and "c_id NEW \<in> set (map c_id (complaints d))"
  shows "keys_ok d'"
  using assms
  by (auto simp: log_complaint_status_change_def insert_history_definer_def
      history_constraints_def keys_ok_def list_all_iff split: if_splits option.splits)

lemma insert_complaints_keeps_keys:
  assumes "insert_complaints d uid now hid NEW = Inr d'" and "keys_ok d"
  shows "keys_ok d'"
proof -
  from assms(1) have log:
    "log_complaint_status_change (d\<lparr>complaints := complaints d @ [NEW]\<rparr>) uid now hid None NEW
       = Inr d'"
    and fresh: "c_id NEW \<notin> set (map c_id (complaints d))"
    by (auto simp: insert_complaints_def split: if_splits)
  from assms(2) fresh have "keys_ok (d\<lparr>complaints := complaints d @ [NEW]\<rparr>)"
    by (auto simp: keys_ok_def list_all_iff)
  from log_keeps_keys [OF log this] show ?thesis by simp
qed

lemma update_complaints_keeps_keys:
  assumes "update_complaints d uid now hid cid status admin_note = Inr d'" and "keys_ok d"
  shows "keys_ok d'"
proof (cases "find (\<lambda>c. c_id c = cid \<and> complaints_select_policy d uid c
                      \<and> complaints_update_policy d uid c) (complaints d)")
  case None
  with assms show ?thesis by (simp add: update_complaints_def)
next
  case (Some OLD)
  let ?NEW = "OLD\<lparr>c_status := status, c_admin_note := admin_note, c_updated_at := now\<rparr>"
  let ?d1 = "d\<lparr>complaints := map (\<lambda>c. if c_id c = cid then ?NEW else c) (complaints d)\<rparr>"
  from Some have old: "OLD \<in> set (complaints d)" "c_id OLD = cid"
    by (auto simp: find_Some_iff)
  have ids: "map c_id (map (\<lambda>c. if c_id c = cid then ?NEW else c) (complaints d))
               = map c_id (complaints d)"
    using old(2) by (induction "complaints d") auto
  from assms(1) Some have log:
    "log_complaint_status_change ?d1 uid now hid (Some OLD) ?NEW = Inr d'"
    by (simp add: update_complaints_def Let_def split: if_splits)
  from assms(2) have "keys_ok ?d1"
    unfolding keys_ok_def by (simp del: map_map add: ids)
  moreover from old have "c_id ?NEW \<in> set (map c_id (complaints ?d1))"
    by (simp del: map_map add: ids) blast
  ultimately show ?thesis using log_keeps_keys [OF log] by blast
qed

lemma keys_ok_store: "keys_ok store"
  by code_simp

end
